theory Spec2Isabelle
  imports Main
begin

section \<open>JavaScript strings\<close>

text \<open>
  A JavaScript string is modelled as a \<^typ>\<open>string\<close>, one \<^typ>\<open>char\<close> per code unit;
  the strings of the model are those whose code units are below 256. The helpers below
  are the string methods that \<^verbatim>\<open>src/index.ts\<close> calls.
\<close>

text \<open>\<^verbatim>\<open>s.startsWith(p)\<close>\<close>

fun startsWith :: "string \<Rightarrow> string \<Rightarrow> bool" where
  "startsWith s [] = True"
| "startsWith [] (p # ps) = False"
| "startsWith (c # cs) (p # ps) = (c = p \<and> startsWith cs ps)"

text \<open>\<^verbatim>\<open>s.includes(sub)\<close>: \<open>sub\<close> occurs in \<open>s\<close> as a contiguous run of code units.\<close>

fun js_includes :: "string \<Rightarrow> string \<Rightarrow> bool" where
  "js_includes [] sub = (sub = [])"
| "js_includes (c # cs) sub = (startsWith (c # cs) sub \<or> js_includes cs sub)"

text \<open>
  \<^verbatim>\<open>s.split(sep)\<close> for a separator of one code unit: the pieces between the
  separators, empty pieces kept; the result is never the empty list.
\<close>

fun js_split :: "char \<Rightarrow> string \<Rightarrow> string list" where
  "js_split sep [] = [[]]"
| "js_split sep (c # cs) =
     (if c = sep then [] # js_split sep cs
      else (case js_split sep cs of
              [] \<Rightarrow> [[c]]
            | piece # pieces \<Rightarrow> (c # piece) # pieces))"

text \<open>
  \<^verbatim>\<open>s.trim()\<close> removes white space and line terminators from both ends. Below 256
  the code units that JavaScript counts as such are tab, line feed, vertical tab, form
  feed, carriage return, space and the no-break space U+00A0.
\<close>

definition js_whitespace :: "char \<Rightarrow> bool" where
  "js_whitespace c =
     (c \<in> set [CHR 0x09, CHR 0x0A, CHR 0x0B, CHR 0x0C, CHR 0x0D, CHR '' '', CHR 0xA0])"

definition js_trim :: "string \<Rightarrow> string" where
  "js_trim s = rev (dropWhile js_whitespace (rev (dropWhile js_whitespace s)))"

section \<open>ArgumentBuilder\<close>

text \<open>
  The loop of \<^verbatim>\<open>getBuildArguments\<close>:
  \<^verbatim>\<open>
  for (let i = 0; i < tokens.length; i++) {
    const token: string = tokens[i];
    if (token.startsWith("-")) {
      const value = tokens[i + 1] && !tokens[i + 1].startsWith("-") ? tokens[++i] : "";
      args.push(value ? `${token} ${value}` : token);
    }
  }
  \<close>
  \<^verbatim>\<open>tokens[i + 1]\<close> is \<^verbatim>\<open>undefined\<close> past the end of the array, and both
  \<^verbatim>\<open>undefined\<close> and the empty string are falsy.
\<close>

function getBuildArguments_loop :: "string list \<Rightarrow> nat \<Rightarrow> string list \<Rightarrow> string list" where
  "getBuildArguments_loop tokens i args =
     (if i < length tokens then
        (let token = tokens ! i in
         if startsWith token ''-'' then
           (let (val, i') =
                  (if i + 1 < length tokens \<and> tokens ! (i + 1) \<noteq> []
                      \<and> \<not> startsWith (tokens ! (i + 1)) ''-''
                   then (tokens ! (i + 1), i + 1) else ([], i))
            in getBuildArguments_loop tokens (i' + 1)
                 (args @ [if val \<noteq> [] then token @ '' '' @ val else token]))
         else getBuildArguments_loop tokens (i + 1) args)
      else args)"
  by pat_completeness auto
termination
  by (relation "measure (\<lambda>(tokens, i, args). length tokens - i)") (auto split: if_splits)

declare getBuildArguments_loop.simps [simp del]

definition fixed_arguments :: "string \<Rightarrow> string \<Rightarrow> string list" where
  "fixed_arguments projectPath executeMethod =
     [''-quit'', ''-batchmode'', ''-logFile -'',
      ''-projectPath '' @ projectPath,
      ''-executeMethod '' @ executeMethod]"

definition getBuildArguments :: "string \<Rightarrow> string \<Rightarrow> string \<Rightarrow> string list" where
  "getBuildArguments projectPath executeMethod customOptions =
     (let args = fixed_arguments projectPath executeMethod;
          tokens = (if customOptions \<noteq> [] then js_split (CHR '' '') customOptions else [])
      in getBuildArguments_loop tokens 0 args)"

section \<open>The runtime the program runs in\<close>

text \<open>
  A value caught by \<^verbatim>\<open>catch (error)\<close>: an instance of \<^verbatim>\<open>Error\<close> with its
  message and, for the errors of the file system, its \<^verbatim>\<open>code\<close> property; or any
  other value, kept as the text \<^verbatim>\<open>JSON.stringify\<close> gives for it.
\<close>

datatype thrown = Error string "string option" | NonError string

text \<open>\<^verbatim>\<open>error.message\<close>; a value that is not an \<^verbatim>\<open>Error\<close> has no such property.\<close>

fun message_of :: "thrown \<Rightarrow> string" where
  "message_of (Error msg c) = msg"
| "message_of (NonError j) = ''undefined''"

text \<open>A \<^verbatim>\<open>Dirent\<close>, as \<^verbatim>\<open>readdirSync(dir, { withFileTypes: true })\<close> returns them.\<close>

datatype dirent = Dirent (name: string) (isDirectory: bool)

text \<open>
  What the child process does, as the events its \<^verbatim>\<open>ChildProcess\<close> object emits, in
  the order they arrive: a chunk on \<^verbatim>\<open>stdout\<close>, a chunk on \<^verbatim>\<open>stderr\<close>,
  \<^verbatim>\<open>'close'\<close> with the exit code (\<^verbatim>\<open>null\<close> is \<open>None\<close>), \<^verbatim>\<open>'error'\<close>.
\<close>

datatype child_event =
    StdoutData string
  | StderrData string
  | Close "int option"
  | ErrorEvent thrown

text \<open>
  The functions of Node.js and the process state that the program reads. They are
  parameters of the model: the file system (\<^verbatim>\<open>fs\<close>), \<^verbatim>\<open>path.join\<close> (its arguments
  as a list) and \<^verbatim>\<open>path.dirname\<close>, \<^verbatim>\<open>os.platform()\<close>, \<^verbatim>\<open>process.env\<close>,
  \<^verbatim>\<open>process.cwd()\<close>, \<^verbatim>\<open>process.chdir\<close>, and \<^verbatim>\<open>spawn\<close>, which gives the events of
  the child for a command, its arguments and its working directory. A call that can
  throw returns the thrown value on the left (\<^verbatim>\<open>chdir\<close> and \<^verbatim>\<open>mkdirSync\<close>:
  \<open>Some\<close> of it); so does \<^verbatim>\<open>spawn\<close> when it throws instead of returning a
  \<^verbatim>\<open>ChildProcess\<close>. \<^verbatim>\<open>createWriteStream\<close> never throws: it returns a stream at
  once and opens the file later, and \<open>Some\<close> is the error of the \<^verbatim>\<open>'error'\<close> event
  that the stream emits when the file cannot be opened.
\<close>

record sys =
  platform :: string
  getenv :: "string \<Rightarrow> string option"
  cwd :: string
  chdir :: "string \<Rightarrow> thrown option"
  readFileSync :: "string \<Rightarrow> thrown + string"
  readdirSync :: "string \<Rightarrow> thrown + dirent list"
  existsSync :: "string \<Rightarrow> bool"
  mkdirSync :: "string \<Rightarrow> thrown option"
  createWriteStream :: "string \<Rightarrow> thrown option"
  join :: "string list \<Rightarrow> string"
  dirname :: "string \<Rightarrow> string"
  spawn :: "string \<Rightarrow> string list \<Rightarrow> string \<Rightarrow> thrown + child_event list"

text \<open>
  What a run does to the outside, in the order it does it: lines on the console,
  listings and existence checks on the file system, the log stream, the child, the
  promise of the runner, an exception that nothing catches, and the exit of the
  process.
\<close>

datatype effect =
    ConsoleLog string
  | ConsoleError string
  | Readdir string
  | Exists string
  | CreateWriteStream string
  | Spawn string "string list" string
  | LogWrite string
  | LogEnd
  | Resolve int
  | Reject thrown
  | Uncaught thrown
  | Exit int

text \<open>
  A function that may not return is given fuel and returns \<open>None\<close> when the fuel
  is used up. \<open>after es r\<close> is the run \<open>r\<close> with the effects \<open>es\<close> done before it.
\<close>

definition after :: "effect list \<Rightarrow> (effect list \<times> 'a) option \<Rightarrow> (effect list \<times> 'a) option" where
  "after es r = map_option (\<lambda>(tr, x). (es @ tr, x)) r"

text \<open>A string is truthy when it is not empty; \<^verbatim>\<open>undefined\<close> is falsy.\<close>

fun truthy :: "string option \<Rightarrow> bool" where
  "truthy None = False"
| "truthy (Some s) = (s \<noteq> [])"

section \<open>ExecutableLocator\<close>

subsection \<open>Phase 1: \<^verbatim>\<open>findUnityDirectory\<close>\<close>

text \<open>
  The test of the \<^verbatim>\<open>catch\<close> clause:
  \<^verbatim>\<open>(error instanceof Error && 'code' in error) &&
  (error.code === 'EPERM' || error.code === 'EACCES')\<close>
\<close>

fun permission_denied :: "thrown \<Rightarrow> bool" where
  "permission_denied (Error msg c) = (c = Some ''EPERM'' \<or> c = Some ''EACCES'')"
| "permission_denied (NonError j) = False"

text \<open>
  The inner loop, \<^verbatim>\<open>for (let i = entries.length - 1; i >= 0; i--)\<close>. The counter
  of the model is \<open>i + 1\<close>, so that \<open>0\<close> is the end of the loop. \<open>Inl\<close> is the
  \<^verbatim>\<open>return\<close> inside the loop, \<open>Inr\<close> the queue when the loop ends.
\<close>

fun findUnityDirectory_for ::
  "sys \<Rightarrow> string \<Rightarrow> string \<Rightarrow> dirent list \<Rightarrow> nat \<Rightarrow> string list \<Rightarrow> string + string list" where
  "findUnityDirectory_for s unityVer currDir entries 0 queue = Inr queue"
| "findUnityDirectory_for s unityVer currDir entries (Suc i) queue =
     (let entry = entries ! i in
      if \<not> isDirectory entry then findUnityDirectory_for s unityVer currDir entries i queue
      else if js_includes (name entry) unityVer then Inl (join s [currDir, name entry])
      else findUnityDirectory_for s unityVer currDir entries i
             (queue @ [join s [currDir, name entry]]))"

text \<open>
  The outer loop, \<^verbatim>\<open>while (queue.length > 0)\<close>, one unit of fuel for each directory
  taken from the queue. The result is \<open>Inl\<close> of the error that \<^verbatim>\<open>readdirSync\<close>
  threw, or \<open>Inr\<close> of the directory found (\<open>None\<close> is \<^verbatim>\<open>undefined\<close>).
\<close>

fun findUnityDirectory_while ::
  "nat \<Rightarrow> sys \<Rightarrow> string \<Rightarrow> string list \<Rightarrow> (effect list \<times> (thrown + string option)) option" where
  "findUnityDirectory_while fuel s unityVer [] = Some ([], Inr None)"
| "findUnityDirectory_while 0 s unityVer (currDir # queue) = None"
| "findUnityDirectory_while (Suc fuel) s unityVer (currDir # queue) =
     (case readdirSync s currDir of
        Inl error \<Rightarrow>
          if permission_denied error
          then after [Readdir currDir] (findUnityDirectory_while fuel s unityVer queue)
          else Some ([Readdir currDir], Inl error)
      | Inr entries \<Rightarrow>
          (case findUnityDirectory_for s unityVer currDir entries (length entries) queue of
             Inl found \<Rightarrow> Some ([Readdir currDir], Inr (Some found))
           | Inr queue' \<Rightarrow>
               after [Readdir currDir] (findUnityDirectory_while fuel s unityVer queue')))"

definition findUnityDirectory ::
  "nat \<Rightarrow> sys \<Rightarrow> string \<Rightarrow> string \<Rightarrow> (effect list \<times> (thrown + string option)) option" where
  "findUnityDirectory fuel s dir unityVer = findUnityDirectory_while fuel s unityVer [dir]"

subsection \<open>Phase 2: \<^verbatim>\<open>findUnityExecutable\<close>\<close>

text \<open>
  The fuel bounds the depth of the recursion. \<open>findUnityExecutable_for\<close> is the loop
  \<^verbatim>\<open>for (const entry of entries)\<close> over the entries still to come.
\<close>

function findUnityExecutable ::
    "nat \<Rightarrow> sys \<Rightarrow> string \<Rightarrow> string \<Rightarrow> (effect list \<times> (thrown + string option)) option"
  and findUnityExecutable_for ::
    "nat \<Rightarrow> sys \<Rightarrow> string \<Rightarrow> string \<Rightarrow> dirent list
      \<Rightarrow> (effect list \<times> (thrown + string option)) option" where
  "findUnityExecutable 0 s unityDir executableName = None"
| "findUnityExecutable (Suc fuel) s unityDir executableName =
     (let filePath = join s [unityDir, executableName] in
      if existsSync s filePath then Some ([Exists filePath], Inr (Some filePath))
      else
        (case readdirSync s unityDir of
           Inl error \<Rightarrow> Some ([Exists filePath, Readdir unityDir], Inl error)
         | Inr entries \<Rightarrow>
             after [Exists filePath, Readdir unityDir]
               (findUnityExecutable_for fuel s unityDir executableName entries)))"
| "findUnityExecutable_for fuel s unityDir executableName [] = Some ([], Inr None)"
| "findUnityExecutable_for fuel s unityDir executableName (entry # entries) =
     (if \<not> isDirectory entry
      then findUnityExecutable_for fuel s unityDir executableName entries
      else
        (let subDir = join s [unityDir, name entry] in
         case findUnityExecutable fuel s subDir executableName of
           None \<Rightarrow> None
         | Some (tr, Inl error) \<Rightarrow> Some (tr, Inl error)
         | Some (tr, Inr result) \<Rightarrow>
             if truthy result then Some (tr, Inr result)
             else after tr (findUnityExecutable_for fuel s unityDir executableName entries)))"
  by pat_completeness auto
termination
  by (relation "(\<lambda>x. case x of
          Inl (fuel, s, unityDir, executableName) \<Rightarrow> 2 * fuel
        | Inr (fuel, s, unityDir, executableName, entries) \<Rightarrow> 2 * fuel + 1)
      <*mlex*> measure (\<lambda>x. case x of
          Inl (fuel, s, unityDir, executableName) \<Rightarrow> 0
        | Inr (fuel, s, unityDir, executableName, entries) \<Rightarrow> length entries)")
    (auto simp: wf_mlex mlex_less mlex_leq)

subsection \<open>\<^verbatim>\<open>getUnityExecutable\<close> and \<^verbatim>\<open>getUnityInstallDir\<close>\<close>

definition getUnityExecutable ::
  "nat \<Rightarrow> sys \<Rightarrow> string \<Rightarrow> string \<Rightarrow> (effect list \<times> (thrown + string option)) option" where
  "getUnityExecutable fuel s installDir version =
     (case findUnityDirectory fuel s installDir version of
        None \<Rightarrow> None
      | Some (tr, Inl error) \<Rightarrow> Some (tr, Inl error)
      | Some (tr, Inr unityDir) \<Rightarrow>
          if \<not> truthy unityDir
          then Some (tr @ [ConsoleError
                 ''Unable to find the corresponding Unity version installation folder.''],
                 Inr None)
          else
            (let currPlatform = platform s in
             if currPlatform = ''win32''
             then after tr (findUnityExecutable fuel s (the unityDir) ''Unity.exe'')
             else if currPlatform = ''darwin''
             then after tr (findUnityExecutable fuel s (the unityDir)
                    ''Unity.app/Contents/MacOS/Unity'')
             else if currPlatform = ''linux''
             then after tr (findUnityExecutable fuel s (the unityDir) ''Unity'')
             else Some (tr, Inr None)))"

definition getUnityInstallDir :: "sys \<Rightarrow> string option \<Rightarrow> thrown + string" where
  "getUnityInstallDir s installDir =
     (if truthy installDir then Inr (the installDir)
      else if platform s = ''win32'' then Inr (''C:'' @ [CHR 0x5C] @ ''Program Files'' @ [CHR 0x5C])
      else if platform s = ''darwin'' then Inr ''/Applications/''
      else if platform s = ''linux'' then Inr ''/opt/''
      else Inl (Error ''Unsupported platform.'' None))"

section \<open>VersionReader\<close>

text \<open>
  \<^verbatim>\<open>versionLine.split(' ')[1]\<close> is \<^verbatim>\<open>undefined\<close> when the line has no space, and
  \<^verbatim>\<open>undefined.trim()\<close> throws a \<^verbatim>\<open>TypeError\<close>, whose message is the engine's.
\<close>

definition trim_of_undefined :: thrown where
  "trim_of_undefined =
     Error (''Cannot read properties of undefined (reading '' @ [CHR 0x27] @ ''trim''
            @ [CHR 0x27] @ '')'') None"

text \<open>The \<^verbatim>\<open>catch\<close> clause of \<^verbatim>\<open>getUnityVersion\<close>.\<close>

fun parse_error :: "thrown \<Rightarrow> thrown" where
  "parse_error (Error msg c) = Error (''Failed to parse project version. Error: '' @ msg) None"
| "parse_error (NonError j) = Error (''Failed to parse project version. Error: '' @ j) None"

definition getUnityVersion :: "sys \<Rightarrow> string \<Rightarrow> thrown + string" where
  "getUnityVersion s projectPath =
     (let versionFilePath = join s [projectPath, ''ProjectSettings'', ''ProjectVersion.txt''] in
      case readFileSync s versionFilePath of
        Inl error \<Rightarrow> Inl (parse_error error)
      | Inr versionFileContent \<Rightarrow>
          (let versionLine =
                 (case find (\<lambda>line. js_includes line ''m_EditorVersion:'')
                         (js_split (CHR 0x0A) versionFileContent) of
                    Some line \<Rightarrow> line
                  | None \<Rightarrow> []);
               fields = js_split (CHR '' '') versionLine
           in if 1 < length fields then Inr (js_trim (fields ! 1))
              else Inl (parse_error trim_of_undefined)))"

section \<open>ProcessRunner\<close>

text \<open>The decimal text of a number in a template literal; \<^verbatim>\<open>null\<close> is \<^verbatim>\<open>null\<close>.\<close>

function show_nat :: "nat \<Rightarrow> string" where
  "show_nat n =
     (if n < 10 then [''0123456789'' ! n]
      else show_nat (n div 10) @ [''0123456789'' ! (n mod 10)])"
  by pat_completeness auto
termination
  by (relation "measure (\<lambda>n. n)") auto

declare show_nat.simps [simp del]

definition show_int :: "int \<Rightarrow> string" where
  "show_int i = (if i < 0 then ''-'' @ show_nat (nat (- i)) else show_nat (nat i))"

fun show_code :: "int option \<Rightarrow> string" where
  "show_code None = ''null''"
| "show_code (Some c) = show_int c"

text \<open>
  The four listeners that \<^verbatim>\<open>executeUnityBuild\<close> attaches, each as the effects of
  one call of it.
\<close>

definition on_stdout_data :: "string \<Rightarrow> effect list" where
  "on_stdout_data log = [ConsoleLog log, LogWrite log]"

definition on_stderr_data :: "string \<Rightarrow> effect list" where
  "on_stderr_data log = [ConsoleError log, LogWrite log]"

definition on_close :: "int option \<Rightarrow> effect list" where
  "on_close c =
     [if c \<noteq> Some 0 then ConsoleError (''Process exited with code: '' @ show_code c)
      else ConsoleLog ''Unity build completed successfully.'',
      LogEnd,
      Resolve (case c of Some n \<Rightarrow> n | None \<Rightarrow> 1)]"

definition on_error :: "thrown \<Rightarrow> effect list" where
  "on_error error =
     [ConsoleError (''Process failed: '' @ message_of error), LogEnd, Reject error]"

fun on_event :: "child_event \<Rightarrow> effect list" where
  "on_event (StdoutData d) = on_stdout_data d"
| "on_event (StderrData d) = on_stderr_data d"
| "on_event (Close c) = on_close c"
| "on_event (ErrorEvent error) = on_error error"

text \<open>
  The state of the promise after a run: the first call of \<^verbatim>\<open>resolve\<close> or
  \<^verbatim>\<open>reject\<close> settles it, later calls do nothing.
\<close>

datatype promise = Pending | Resolved int | Rejected thrown

fun promise_of :: "effect list \<Rightarrow> promise" where
  "promise_of [] = Pending"
| "promise_of (Resolve c # es) = Resolved c"
| "promise_of (Reject error # es) = Rejected error"
| "promise_of (e # es) = promise_of es"

text \<open>
  How a call of \<^verbatim>\<open>executeUnityBuild\<close> ends: it throws (\<^verbatim>\<open>mkdirSync\<close>, before there is
  a promise); or it returns its promise, in the state the listeners leave it in; or it
  returns its promise and the process then ends on the \<^verbatim>\<open>'error'\<close> event of the log
  stream, which has no listener.
\<close>

datatype outcome = Thrown thrown | Promised promise | Crashed thrown

text \<open>
  \<^verbatim>\<open>executeUnityBuild\<close>. When \<^verbatim>\<open>spawn\<close> throws inside the executor of the promise,
  the promise is rejected with what it threw and no listener is attached. When the log
  file cannot be opened, the \<^verbatim>\<open>'error'\<close> event of the stream ends the process before
  an event of the child is handled. Otherwise the listeners stay attached, so every
  event of the list is handled, in order, also one that arrives after the promise is
  settled.
\<close>

definition executeUnityBuild ::
  "sys \<Rightarrow> string \<Rightarrow> string list \<Rightarrow> string \<Rightarrow> string \<Rightarrow> effect list \<times> outcome" where
  "executeUnityBuild s executable args projectPath logPath0 =
     (let logPath = join s [projectPath, logPath0];
          tr1 = [ConsoleLog (''Creating log file. Path: '' @ logPath)];
          dirPath = dirname s logPath;
          made = (if \<not> existsSync s dirPath then mkdirSync s dirPath else None)
      in case made of
           Some error \<Rightarrow> (tr1 @ [Exists dirPath], Thrown error)
         | None \<Rightarrow>
             (let command = [CHR 0x22] @ executable @ [CHR 0x22];
                  tr2 = tr1 @ [Exists dirPath, CreateWriteStream logPath,
                               ConsoleLog ''Executing Unity build.'']
              in case spawn s command args projectPath of
                   Inl error \<Rightarrow> (tr2 @ [Reject error], Promised (Rejected error))
                 | Inr events \<Rightarrow>
                     (case createWriteStream s logPath of
                        Some error \<Rightarrow>
                          (tr2 @ [Spawn command args projectPath, Uncaught error],
                           Crashed error)
                      | None \<Rightarrow>
                          (let tr3 = concat (map on_event events)
                           in (tr2 @ [Spawn command args projectPath] @ tr3,
                               Promised (promise_of tr3))))))"

section \<open>Orchestrator\<close>

text \<open>\<^verbatim>\<open>args.join(" ")\<close>\<close>

fun join_spaces :: "string list \<Rightarrow> string" where
  "join_spaces [] = []"
| "join_spaces [a] = a"
| "join_spaces (a # b # bs) = a @ '' '' @ join_spaces (b # bs)"

text \<open>The \<^verbatim>\<open>catch\<close> clause of \<^verbatim>\<open>main\<close>, after the effects \<open>tr\<close> of the \<^verbatim>\<open>try\<close> block.\<close>

fun main_catch :: "effect list \<Rightarrow> thrown \<Rightarrow> (effect list \<times> int) option" where
  "main_catch tr (Error msg c) = Some (tr @ [ConsoleError (''Error: '' @ msg), Exit 1], 1)"
| "main_catch tr (NonError j) = Some (tr @ [ConsoleError (''Unknown Error: '' @ j), Exit 1], 1)"

text \<open>
  \<^verbatim>\<open>main\<close>: the effects of the run and the code the process exits with; \<open>None\<close>
  when the search runs out of fuel or the promise is never settled. A process that
  ends on an uncaught exception exits with \<open>1\<close>. The events of the child are
  those that its listeners handle before the process exits; the exit code is decided by
  the first of them that settles the promise.
\<close>

definition main :: "nat \<Rightarrow> sys \<Rightarrow> (effect list \<times> int) option" where
  "main fuel s =
     (case getUnityInstallDir s (getenv s ''unity_install_dir'') of
        Inl error \<Rightarrow> main_catch [] error
      | Inr unityInstallDir \<Rightarrow>
          (let projectPath = (case getenv s ''project_path'' of Some v \<Rightarrow> v | None \<Rightarrow> cwd s);
               logPath = (case getenv s ''log_path'' of Some v \<Rightarrow> v
                          | None \<Rightarrow> ''Build/Releases/build_output.log'');
               buildMethod = (case getenv s ''build_method'' of Some v \<Rightarrow> v | None \<Rightarrow> []);
               customOptions = (case getenv s ''custom_options'' of Some v \<Rightarrow> v | None \<Rightarrow> []);
               tr1 = [ConsoleLog (''Unity project path used: '' @ projectPath)]
           in case chdir s projectPath of
                Some error \<Rightarrow> main_catch tr1 error
              | None \<Rightarrow>
                  (case getUnityVersion s projectPath of
                     Inl error \<Rightarrow> main_catch tr1 error
                   | Inr unityVer \<Rightarrow>
                       (let tr2 = tr1 @ [ConsoleLog (''Unity version used: '' @ unityVer)] in
                        case getUnityExecutable fuel s unityInstallDir unityVer of
                          None \<Rightarrow> None
                        | Some (tr3, Inl error) \<Rightarrow> main_catch (tr2 @ tr3) error
                        | Some (tr3, Inr found) \<Rightarrow>
                            (let unityExecutable = (case found of Some v \<Rightarrow> v | None \<Rightarrow> []);
                                 args = getBuildArguments projectPath buildMethod customOptions;
                                 tr4 = tr2 @ tr3 @
                                   [ConsoleLog (''Unity Executable: '' @ unityExecutable),
                                    ConsoleLog (''Arguments: '' @ join_spaces args)]
                             in case executeUnityBuild s unityExecutable args projectPath logPath of
                                  (tr5, Thrown error) \<Rightarrow> main_catch (tr4 @ tr5) error
                                | (tr5, Crashed error) \<Rightarrow> Some (tr4 @ tr5 @ [Exit 1], 1)
                                | (tr5, Promised Pending) \<Rightarrow> None
                                | (tr5, Promised (Resolved result)) \<Rightarrow>
                                    Some (tr4 @ tr5 @ [Exit result], result)
                                | (tr5, Promised (Rejected error)) \<Rightarrow>
                                    main_catch (tr4 @ tr5) error)))))"

section \<open>The specification's descriptions, as functions\<close>

subsection \<open>Re-parsing of the custom options\<close>

text \<open>
  The re-parsing rule in the specification's words: a token that starts with a dash
  begins a flag; if the next token exists and does not start with a dash, it is the
  flag's value and both make one entry, joined by a space; otherwise the flag stands
  alone; any other token is dropped.
\<close>

fun reparse_spec :: "string list \<Rightarrow> string list" where
  "reparse_spec [] = []"
| "reparse_spec (t # ts) =
     (if startsWith t ''-'' then
        (case ts of
           [] \<Rightarrow> [t]
         | v # rest \<Rightarrow>
             if \<not> startsWith v ''-'' then (t @ '' '' @ v) # reparse_spec rest
             else t # reparse_spec ts)
      else reparse_spec ts)"

text \<open>The same rule, where only a next token that is not empty can be a value.\<close>

fun reparse :: "string list \<Rightarrow> string list" where
  "reparse [] = []"
| "reparse (t # ts) =
     (if startsWith t ''-'' then
        (case ts of
           [] \<Rightarrow> [t]
         | v # rest \<Rightarrow>
             if v \<noteq> [] \<and> \<not> startsWith v ''-'' then (t @ '' '' @ v) # reparse rest
             else t # reparse ts)
      else reparse ts)"

subsection \<open>Breadth-first search by levels\<close>

text \<open>
  The phase-1 search in the specification's words, level by level: \<open>level\<close> holds the
  directories of the current depth still to be listed, \<open>next\<close> the directories of
  the next depth found so far. The directory entries of a listing are scanned in
  reverse order; the first one whose name contains the version ends the search, the
  others are appended to \<open>next\<close> in the order scanned. When a level is used up the
  search goes on with \<open>next\<close>; when both are empty nothing was found.
\<close>

function bfs_levels ::
  "nat \<Rightarrow> sys \<Rightarrow> string \<Rightarrow> string list \<Rightarrow> string list \<Rightarrow> (thrown + string option) option" where
  "bfs_levels fuel s ver [] [] = Some (Inr None)"
| "bfs_levels fuel s ver [] (d # next) = bfs_levels fuel s ver (d # next) []"
| "bfs_levels 0 s ver (d # level) next = None"
| "bfs_levels (Suc fuel) s ver (d # level) next =
     (case readdirSync s d of
        Inl error \<Rightarrow>
          if permission_denied error then bfs_levels fuel s ver level next
          else Some (Inl error)
      | Inr entries \<Rightarrow>
          (let dirs = rev (filter isDirectory entries) in
           case find (\<lambda>e. js_includes (name e) ver) dirs of
             Some e \<Rightarrow> Some (Inr (Some (join s [d, name e])))
           | None \<Rightarrow> bfs_levels fuel s ver level (next @ map (\<lambda>e. join s [d, name e]) dirs)))"
  by pat_completeness auto
termination
  by (relation "measure (\<lambda>(fuel, s, ver, level, next). 2 * fuel + (if level = [] then 1 else 0))")
    auto

subsection \<open>Pre-order traversal\<close>





subsection \<open>Fields of the version line\<close>

text \<open>The pieces of a string between the code units that satisfy \<open>P\<close>.\<close>

fun split_where :: "(char \<Rightarrow> bool) \<Rightarrow> string \<Rightarrow> string list" where
  "split_where P [] = [[]]"
| "split_where P (c # cs) =
     (if P c then [] # split_where P cs
      else (case split_where P cs of
              [] \<Rightarrow> [[c]]
            | piece # pieces \<Rightarrow> (c # piece) # pieces))"

text \<open>
  The whitespace-separated fields of a line, in the specification's words: the
  maximal runs of code units that are not white space.
\<close>

definition whitespace_fields :: "string \<Rightarrow> string list" where
  "whitespace_fields line = filter (\<lambda>f. f \<noteq> []) (split_where js_whitespace line)"

text \<open>A \<^verbatim>\<open>ParseError\<close>: what the \<^verbatim>\<open>catch\<close> clause of \<^verbatim>\<open>getUnityVersion\<close> throws.\<close>

fun is_parse_error :: "thrown \<Rightarrow> bool" where
  "is_parse_error (Error msg c) = startsWith msg ''Failed to parse project version. Error: ''"
| "is_parse_error (NonError j) = False"

subsection \<open>Reading the effects of a run\<close>



fun is_console :: "effect \<Rightarrow> bool" where
  "is_console (ConsoleLog line) = True"
| "is_console (ConsoleError line) = True"
| "is_console e = False"

fun is_search :: "effect \<Rightarrow> bool" where
  "is_search (Readdir d) = True"
| "is_search (Exists p) = True"
| "is_search e = False"

text \<open>The chunks written to the log stream, in order.\<close>

fun log_writes :: "effect list \<Rightarrow> string list" where
  "log_writes [] = []"
| "log_writes (LogWrite chunk # es) = chunk # log_writes es"
| "log_writes (e # es) = log_writes es"

text \<open>The chunks that the child wrote to its two streams, in the order they arrived.\<close>

fun chunks :: "child_event list \<Rightarrow> string list" where
  "chunks [] = []"
| "chunks (StdoutData d # evs) = d # chunks evs"
| "chunks (StderrData d # evs) = d # chunks evs"
| "chunks (ev # evs) = chunks evs"

text \<open>The console line that an event of the child leads to.\<close>

fun console_line :: "child_event \<Rightarrow> effect" where
  "console_line (StdoutData d) = ConsoleLog d"
| "console_line (StderrData d) = ConsoleError d"
| "console_line (Close c) =
     (if c = Some 0 then ConsoleLog ''Unity build completed successfully.''
      else ConsoleError (''Process exited with code: '' @ show_code c))"
| "console_line (ErrorEvent error) = ConsoleError (''Process failed: '' @ message_of error)"

fun is_data :: "child_event \<Rightarrow> bool" where
  "is_data (StdoutData d) = True"
| "is_data (StderrData d) = True"
| "is_data ev = False"

text \<open>The first event of the child that ends the run: \<^verbatim>\<open>'close'\<close> or \<^verbatim>\<open>'error'\<close>.\<close>

definition first_terminal :: "child_event list \<Rightarrow> child_event option" where
  "first_terminal evs = find (\<lambda>ev. \<not> is_data ev) evs"

subsection \<open>The inputs of a run\<close>





section \<open>An example installation\<close>

text \<open>
  A small Linux machine on which the theorems below are tried. Paths are joined with
  a slash. The install root holds a file, a directory that may not be listed and the
  directory of the editors; the editor asked for has its executable one level down.
  The command is run by a shell: for the empty path in quotes, which names no command,
  the shell exits with \<open>127\<close>; for any other command the child is a build that
  succeeds.
\<close>

fun join_slash :: "string list \<Rightarrow> string" where
  "join_slash [] = []"
| "join_slash [a] = a"
| "join_slash (a # b # bs) = a @ ''/'' @ join_slash (b # bs)"

definition example_join :: "string list \<Rightarrow> string" where
  "example_join ps =
     (let joined = join_slash (filter (\<lambda>p. p \<noteq> []) ps)
      in if joined = [] then ''.'' else joined)"

definition example_dirname :: "string \<Rightarrow> string" where
  "example_dirname p = rev (drop 1 (dropWhile (\<lambda>c. c \<noteq> CHR ''/'') (rev p)))"

definition example_readdir :: "string \<Rightarrow> thrown + dirent list" where
  "example_readdir d =
     (if d = ''/opt/unity''
      then Inr [Dirent ''notes.txt'' False, Dirent ''private'' True, Dirent ''editors'' True]
      else if d = ''/opt/unity/private''
      then Inl (Error ''EACCES: permission denied, scandir'' (Some ''EACCES''))
      else if d = ''/opt/unity/editors''
      then Inr [Dirent ''2021.3.1f1'' True, Dirent ''2021.3.10f1'' True]
      else if d = ''/opt/unity/editors/2021.3.1f1''
      then Inr [Dirent ''Documentation'' True, Dirent ''Editor'' True]
      else if d = ''/opt/unity/editors/2021.3.1f1/Documentation''
      then Inr [Dirent ''index.html'' False]
      else if d = ''/opt/unity/editors/2021.3.1f1/Editor''
      then Inr [Dirent ''Data'' True, Dirent ''Unity'' False]
      else if d = ''/opt/unity/editors/2021.3.1f1/Editor/Data''
      then Inr []
      else Inl (Error ''ENOENT: no such file or directory, scandir'' (Some ''ENOENT'')))"

definition example_events :: "child_event list" where
  "example_events =
     [StdoutData ''compiling'', StderrData ''warning CS0168'', StdoutData ''done'',
      Close (Some 0)]"

definition example_sys :: sys where
  "example_sys =
     \<lparr> platform = ''linux'',
       getenv = map_of
         [(''unity_install_dir'', ''/opt/unity''),
          (''project_path'', ''/proj''),
          (''build_method'', ''Builder.Build''),
          (''custom_options'', ''-test -targetPlatform StandaloneWindows64 -quit'')],
       cwd = ''/'',
       chdir = (\<lambda>p. None),
       readFileSync = (\<lambda>p.
         if p = ''/proj/ProjectSettings/ProjectVersion.txt''
         then Inr (''m_EditorVersion: 2021.3.1f1'' @ [CHR 0x0A]
                   @ ''m_EditorVersionWithRevision: 2021.3.1f1 (eba7e8f7e3b4)'' @ [CHR 0x0A])
         else Inl (Error ''ENOENT: no such file or directory, open'' (Some ''ENOENT''))),
       readdirSync = example_readdir,
       existsSync = (\<lambda>p. p \<in> set [''/proj'', ''/opt/unity/editors/2021.3.1f1/Editor/Unity'']),
       mkdirSync = (\<lambda>p. None),
       createWriteStream = (\<lambda>p. None),
       join = example_join,
       dirname = example_dirname,
       spawn = (\<lambda>command args dir.
         if command = [CHR 0x22, CHR 0x22] then Inr [Close (Some 127)]
         else Inr example_events) \<rparr>"

section \<open>The example installation, field by field\<close>

lemma example_sys_simps:
  "platform example_sys = ''linux''"
  "getenv example_sys = map_of
     [(''unity_install_dir'', ''/opt/unity''),
      (''project_path'', ''/proj''),
      (''build_method'', ''Builder.Build''),
      (''custom_options'', ''-test -targetPlatform StandaloneWindows64 -quit'')]"
  "cwd example_sys = ''/''"
  "chdir example_sys p = None"
  "readFileSync example_sys p =
     (if p = ''/proj/ProjectSettings/ProjectVersion.txt''
      then Inr (''m_EditorVersion: 2021.3.1f1'' @ [CHR 0x0A]
                @ ''m_EditorVersionWithRevision: 2021.3.1f1 (eba7e8f7e3b4)'' @ [CHR 0x0A])
      else Inl (Error ''ENOENT: no such file or directory, open'' (Some ''ENOENT'')))"
  "readdirSync example_sys = example_readdir"
  "existsSync example_sys p =
     (p = ''/proj'' \<or> p = ''/opt/unity/editors/2021.3.1f1/Editor/Unity'')"
  "mkdirSync example_sys p = None"
  "createWriteStream example_sys p = None"
  "join example_sys = example_join"
  "dirname example_sys = example_dirname"
  "spawn example_sys command args dir =
     (if command = [CHR 0x22, CHR 0x22] then Inr [Close (Some 127)] else Inr example_events)"
  by (simp_all add: example_sys_def)


section \<open>ArgumentBuilder: the re-parsing loop\<close>

text \<open>
  The loop over the indices of \<open>tokens\<close> computes \<open>reparse\<close> of the tokens from
  \<open>i\<close> on, appended to the arguments it starts with.
\<close>

lemma getBuildArguments_loop_reparse:
  "getBuildArguments_loop tokens i args = args @ reparse (drop i tokens)"
proof (induction tokens i args rule: getBuildArguments_loop.induct)
  case (1 tokens i args)
  show ?case
  proof (cases "i < length tokens")
    case False
    then show ?thesis by (subst getBuildArguments_loop.simps) simp
  next
    case True
    then have d: "drop i tokens = tokens ! i # drop (Suc i) tokens"
      by (simp add: Cons_nth_drop_Suc)
    show ?thesis
    proof (cases "startsWith (tokens ! i) ''-''")
      case False
      have "getBuildArguments_loop tokens i args = getBuildArguments_loop tokens (i + 1) args"
        using True False by (subst getBuildArguments_loop.simps) simp
      also have "\<dots> = args @ reparse (drop (i + 1) tokens)"
        using True False by (intro "1.IH"(2)) simp_all
      finally show ?thesis using False by (simp add: d)
    next
      case dash: True
      let ?t = "tokens ! i"
      show ?thesis
      proof (cases "i + 1 < length tokens \<and> tokens ! (i + 1) \<noteq> []
                      \<and> \<not> startsWith (tokens ! (i + 1)) ''-''")
        case c: True
        let ?v = "tokens ! (i + 1)"
        from c have d2: "drop (Suc i) tokens = ?v # drop (i + 2) tokens"
          by (simp add: Cons_nth_drop_Suc)
        have "getBuildArguments_loop tokens i args =
                getBuildArguments_loop tokens (i + 1 + 1) (args @ [?t @ '' '' @ ?v])"
          using True dash c by (subst getBuildArguments_loop.simps) simp
        also have "\<dots> = (args @ [?t @ '' '' @ ?v]) @ reparse (drop (i + 1 + 1) tokens)"
          using "1.IH"(1) [OF True refl dash refl, of ?v "i + 1"] c by simp
        finally show ?thesis using dash c by (simp add: d d2)
      next
        case c: False
        have "getBuildArguments_loop tokens i args =
                getBuildArguments_loop tokens (i + 1) (args @ [?t])"
          using True dash c by (subst getBuildArguments_loop.simps) auto
        also have "\<dots> = (args @ [?t]) @ reparse (drop (i + 1) tokens)"
          using "1.IH"(1) [OF True refl dash refl, of "[]" i] c by auto
        finally have e: "getBuildArguments_loop tokens i args =
                           args @ ?t # reparse (drop (Suc i) tokens)"
          by simp
        show ?thesis
        proof (cases "Suc i < length tokens")
          case False
          then show ?thesis using dash by (simp add: e d)
        next
          case s: True
          then have "drop (Suc i) tokens = tokens ! (i + 1) # drop (i + 2) tokens"
            by (simp add: Cons_nth_drop_Suc)
          then show ?thesis using dash c s by (simp add: e d)
        qed
      qed
    qed
  qed
qed

lemma getBuildArguments_eq:
  "getBuildArguments projectPath executeMethod customOptions =
     fixed_arguments projectPath executeMethod @ reparse (js_split (CHR '' '') customOptions)"
  by (simp add: getBuildArguments_def getBuildArguments_loop_reparse)

text \<open>
  C4, as the specification states it, fails where the custom string has two spaces in
  a row: the empty token between them exists and does not start with a dash, so the
  rule of the specification makes it the value of the flag before it and the entry is
  the flag with a space after it; \<^verbatim>\<open>getBuildArguments\<close> tests the next token for
  truthiness, finds the empty string falsy and emits the flag alone.
\<close>

theorem getBuildArguments_two_spaces_counterexample:
  "getBuildArguments ''/proj'' ''Builder.Build'' ''-a  b''
     \<noteq> fixed_arguments ''/proj'' ''Builder.Build''
         @ reparse_spec (js_split (CHR '' '') ''-a  b'')"
  by (simp add: getBuildArguments_eq)

text \<open>
  C4, amended: for every custom options string, the argument list is the fixed
  prefix followed by the re-parsed tokens in their original order, where the string is
  split at single spaces, a token that starts with a dash begins a flag, a next token
  that is not empty and does not start with a dash is consumed as the flag's value and
  joined to it with one space as one entry, a flag with no such next token is emitted
  alone, and every other token is dropped. The custom string
  \<^verbatim>\<open>-test -targetPlatform StandaloneWindows64 -quit\<close> gives the three entries
  \<^verbatim>\<open>-test\<close>, \<^verbatim>\<open>-targetPlatform StandaloneWindows64\<close> and \<^verbatim>\<open>-quit\<close> after the prefix.
\<close>

theorem getBuildArguments_reparse:
  "getBuildArguments projectPath executeMethod customOptions =
     fixed_arguments projectPath executeMethod @ reparse (js_split (CHR '' '') customOptions)
   \<and> getBuildArguments projectPath executeMethod
         ''-test -targetPlatform StandaloneWindows64 -quit'' =
       fixed_arguments projectPath executeMethod
         @ [''-test'', ''-targetPlatform StandaloneWindows64'', ''-quit'']"
  by (simp add: getBuildArguments_eq)

theorem getBuildArguments_reparse_witness:
  "getBuildArguments ''/proj'' ''Builder.Build'' ''orphan -a  b -c d e -f'' =
     [''-quit'', ''-batchmode'', ''-logFile -'', ''-projectPath /proj'',
      ''-executeMethod Builder.Build'', ''-a'', ''-c d'', ''-f'']"
  using getBuildArguments_reparse [of "''/proj''" "''Builder.Build''" "''orphan -a  b -c d e -f''"]
  by (simp add: fixed_arguments_def)

section \<open>ProcessRunner: the listeners\<close>

text \<open>
  \<open>count_list\<close> of an appended list, the state of the promise after the listeners
  have run, and what the listeners write to the log and to the console.
\<close>

lemma promise_of_append:
  "promise_of (a @ b) = (case promise_of a of Pending \<Rightarrow> promise_of b | st \<Rightarrow> st)"
  by (induction a rule: promise_of.induct) simp_all

lemma promise_of_events:
  "promise_of (concat (map on_event evs)) =
     (case first_terminal evs of
        None \<Rightarrow> Pending
      | Some (Close c) \<Rightarrow> Resolved (case c of Some n \<Rightarrow> n | None \<Rightarrow> 1)
      | Some (ErrorEvent error) \<Rightarrow> Rejected error
      | Some ev \<Rightarrow> Pending)"
proof (induction evs)
  case Nil
  show ?case by (simp add: first_terminal_def)
next
  case (Cons ev evs)
  then show ?case
    by (cases ev) (simp_all add: first_terminal_def promise_of_append on_stdout_data_def on_stderr_data_def
        on_close_def on_error_def)
qed

lemma log_writes_append: "log_writes (a @ b) = log_writes a @ log_writes b"
  by (induction a rule: log_writes.induct) simp_all

lemma log_writes_events: "log_writes (concat (map on_event evs)) = chunks evs"
proof (induction evs)
  case Nil
  show ?case by simp
next
  case (Cons ev evs)
  then show ?case
    by (cases ev)
      (simp_all add: log_writes_append on_stdout_data_def on_stderr_data_def on_close_def
        on_error_def)
qed

lemma console_on_event: "filter is_console (on_event ev) = [console_line ev]"
  by (cases ev) (simp_all add: on_stdout_data_def on_stderr_data_def on_close_def on_error_def)

lemma console_events: "filter is_console (concat (map on_event evs)) = map console_line evs"
  by (induction evs) (simp_all add: console_on_event)





lemma executeUnityBuild_run:
  assumes "existsSync s (dirname s (join s [projectPath, logPath]))
             \<or> mkdirSync s (dirname s (join s [projectPath, logPath])) = None"
    and "spawn s ([CHR 0x22] @ executable @ [CHR 0x22]) args projectPath = Inr evs"
    and "createWriteStream s (join s [projectPath, logPath]) = None"
  shows "executeUnityBuild s executable args projectPath logPath =
     ([ConsoleLog (''Creating log file. Path: '' @ join s [projectPath, logPath]),
       Exists (dirname s (join s [projectPath, logPath])),
       CreateWriteStream (join s [projectPath, logPath]),
       ConsoleLog ''Executing Unity build.'',
       Spawn ([CHR 0x22] @ executable @ [CHR 0x22]) args projectPath]
      @ concat (map on_event evs),
      Promised (promise_of (concat (map on_event evs))))"
  using assms by (auto simp: executeUnityBuild_def Let_def)

text \<open>
  The two ways in which no event of the child reaches a listener: \<^verbatim>\<open>spawn\<close> throws,
  and then the promise is rejected while the log stream is left as it is; or the log
  file cannot be opened, and then the process ends.
\<close>

lemma executeUnityBuild_spawn_throws:
  assumes "existsSync s (dirname s (join s [projectPath, logPath]))
             \<or> mkdirSync s (dirname s (join s [projectPath, logPath])) = None"
    and "spawn s ([CHR 0x22] @ executable @ [CHR 0x22]) args projectPath = Inl error"
  shows "executeUnityBuild s executable args projectPath logPath =
     ([ConsoleLog (''Creating log file. Path: '' @ join s [projectPath, logPath]),
       Exists (dirname s (join s [projectPath, logPath])),
       CreateWriteStream (join s [projectPath, logPath]),
       ConsoleLog ''Executing Unity build.'',
       Reject error],
      Promised (Rejected error))"
  using assms by (auto simp: executeUnityBuild_def Let_def)

lemma executeUnityBuild_crash:
  assumes "existsSync s (dirname s (join s [projectPath, logPath]))
             \<or> mkdirSync s (dirname s (join s [projectPath, logPath])) = None"
    and "spawn s ([CHR 0x22] @ executable @ [CHR 0x22]) args projectPath = Inr evs"
    and "createWriteStream s (join s [projectPath, logPath]) = Some error"
  shows "executeUnityBuild s executable args projectPath logPath =
     ([ConsoleLog (''Creating log file. Path: '' @ join s [projectPath, logPath]),
       Exists (dirname s (join s [projectPath, logPath])),
       CreateWriteStream (join s [projectPath, logPath]),
       ConsoleLog ''Executing Unity build.'',
       Spawn ([CHR 0x22] @ executable @ [CHR 0x22]) args projectPath,
       Uncaught error],
      Crashed error)"
  using assms by (auto simp: executeUnityBuild_def Let_def)






text \<open>
  C7: for every sequence of events of the child, the chunks that the listeners write
  to the log stream are the chunks of its \<^verbatim>\<open>stdout\<close> and \<^verbatim>\<open>stderr\<close> in the order they
  arrived, each once, and the listeners write one line to the console for each event
  in the same order, which for a chunk is the chunk (\<^verbatim>\<open>console.log\<close> for \<^verbatim>\<open>stdout\<close>,
  \<^verbatim>\<open>console.error\<close> for \<^verbatim>\<open>stderr\<close>). In a run of the runner, these are the writes to
  the log and, after the two lines of the runner itself, the lines on the console.
  When \<^verbatim>\<open>spawn\<close> throws or the log file cannot be opened, no event reaches a listener:
  nothing is written to the log, and the console has the two lines of the runner.
\<close>

theorem chunks_logged_and_echoed_once:
  assumes "existsSync s (dirname s (join s [projectPath, logPath]))
           \<or> mkdirSync s (dirname s (join s [projectPath, logPath])) = None"
  shows "log_writes (concat (map on_event events)) = chunks events
       \<and> filter is_console (concat (map on_event events)) = map console_line events
       \<and> (spawn s ([CHR 0x22] @ executable @ [CHR 0x22]) args projectPath = Inr evs
           \<and> createWriteStream s (join s [projectPath, logPath]) = None \<longrightarrow>
           log_writes (fst (executeUnityBuild s executable args projectPath logPath)) = chunks evs
           \<and> filter is_console (fst (executeUnityBuild s executable args projectPath logPath)) =
               [ConsoleLog (''Creating log file. Path: '' @ join s [projectPath, logPath]),
                ConsoleLog ''Executing Unity build.'']
               @ map console_line evs)
       \<and> (isl (spawn s ([CHR 0x22] @ executable @ [CHR 0x22]) args projectPath)
           \<or> createWriteStream s (join s [projectPath, logPath]) \<noteq> None \<longrightarrow>
           log_writes (fst (executeUnityBuild s executable args projectPath logPath)) = []
           \<and> filter is_console (fst (executeUnityBuild s executable args projectPath logPath)) =
               [ConsoleLog (''Creating log file. Path: '' @ join s [projectPath, logPath]),
                ConsoleLog ''Executing Unity build.''])"
proof -
  have 1: "log_writes (concat (map on_event events)) = chunks events"
    by (rule log_writes_events)
  have 2: "filter is_console (concat (map on_event events)) = map console_line events"
    by (rule console_events)
  have 3: "log_writes (fst (executeUnityBuild s executable args projectPath logPath)) = chunks evs
           \<and> filter is_console (fst (executeUnityBuild s executable args projectPath logPath)) =
               [ConsoleLog (''Creating log file. Path: '' @ join s [projectPath, logPath]),
                ConsoleLog ''Executing Unity build.'']
               @ map console_line evs"
    if "spawn s ([CHR 0x22] @ executable @ [CHR 0x22]) args projectPath = Inr evs"
      and "createWriteStream s (join s [projectPath, logPath]) = None"
    by (simp add: executeUnityBuild_run [OF assms that] log_writes_append log_writes_events
        console_events)
  have 4: "log_writes (fst (executeUnityBuild s executable args projectPath logPath)) = []
           \<and> filter is_console (fst (executeUnityBuild s executable args projectPath logPath)) =
               [ConsoleLog (''Creating log file. Path: '' @ join s [projectPath, logPath]),
                ConsoleLog ''Executing Unity build.'']"
    if "isl (spawn s ([CHR 0x22] @ executable @ [CHR 0x22]) args projectPath)
           \<or> createWriteStream s (join s [projectPath, logPath]) \<noteq> None"
  proof (cases "spawn s ([CHR 0x22] @ executable @ [CHR 0x22]) args projectPath")
    case (Inl error)
    show ?thesis
      by (simp add: executeUnityBuild_spawn_throws [OF assms Inl])
  next
    case (Inr evs')
    with that obtain error where
      "createWriteStream s (join s [projectPath, logPath]) = Some error"
      by auto
    from executeUnityBuild_crash [OF assms Inr this] show ?thesis
      by simp
  qed
  from 1 2 3 4 show ?thesis by blast
qed

theorem chunks_logged_and_echoed_once_witness:
  "spawn example_sys ([CHR 0x22] @ ''/opt/Unity'' @ [CHR 0x22]) [''-quit''] ''/proj''
     = Inr example_events
   \<and> log_writes (fst (executeUnityBuild example_sys ''/opt/Unity'' [''-quit''] ''/proj'' ''unity.log''))
     = [''compiling'', ''warning CS0168'', ''done'']
   \<and> filter is_console
        (fst (executeUnityBuild example_sys ''/opt/Unity'' [''-quit''] ''/proj'' ''unity.log''))
     = [ConsoleLog ''Creating log file. Path: /proj/unity.log'',
        ConsoleLog ''Executing Unity build.'',
        ConsoleLog ''compiling'', ConsoleError ''warning CS0168'', ConsoleLog ''done'',
        ConsoleLog ''Unity build completed successfully.'']"
  using chunks_logged_and_echoed_once
    [of example_sys "''/proj''" "''unity.log''" _ "''/opt/Unity''" "[''-quit'']" example_events]
  by (simp add: example_sys_simps example_events_def example_join_def)

text \<open>
  C10: when the first \<^verbatim>\<open>'close'\<close> or \<^verbatim>\<open>'error'\<close> event of the child is a
  \<^verbatim>\<open>'close'\<close> with the code \<^verbatim>\<open>null\<close>, the promise of the runner is resolved with
  \<open>1\<close>: \<^verbatim>\<open>resolve(code ?? 1)\<close>.
\<close>

theorem close_null_resolves_1:
  assumes "spawn s ([CHR 0x22] @ executable @ [CHR 0x22]) args projectPath = Inr evs"
    and "first_terminal evs = Some (Close None)"
    and "existsSync s (dirname s (join s [projectPath, logPath]))
           \<or> mkdirSync s (dirname s (join s [projectPath, logPath])) = None"
    and "createWriteStream s (join s [projectPath, logPath]) = None"
  shows "on_close None = [ConsoleError ''Process exited with code: null'', LogEnd, Resolve 1]
       \<and> promise_of (concat (map on_event evs)) = Resolved 1
       \<and> snd (executeUnityBuild s executable args projectPath logPath) = Promised (Resolved 1)"
  using assms(2)
  by (simp add: executeUnityBuild_run [OF assms(3) assms(1) assms(4)] promise_of_events
      on_close_def)

theorem close_null_resolves_1_witness:
  "spawn (example_sys\<lparr>spawn := (\<lambda>c a d. Inr [StdoutData ''compiling'', Close None])\<rparr>)
        ([CHR 0x22] @ ''/opt/Unity'' @ [CHR 0x22]) [''-quit''] ''/proj''
     = Inr [StdoutData ''compiling'', Close None]
   \<and> first_terminal [StdoutData ''compiling'', Close None] = Some (Close None)
   \<and> snd (executeUnityBuild
            (example_sys\<lparr>spawn := (\<lambda>c a d. Inr [StdoutData ''compiling'', Close None])\<rparr>)
            ''/opt/Unity'' [''-quit''] ''/proj'' ''unity.log'') = Promised (Resolved 1)"
  using close_null_resolves_1
    [of "example_sys\<lparr>spawn := (\<lambda>c a d. Inr [StdoutData ''compiling'', Close None])\<rparr>"
        "''/opt/Unity''" "[''-quit'']" "''/proj''" "[StdoutData ''compiling'', Close None]"
        "''unity.log''"]
  by (simp add: first_terminal_def example_sys_simps)

section \<open>ExecutableLocator: the search for the directory\<close>

text \<open>
  \<open>js_includes\<close> holds when the second string is a substring of the first. The
  inner loop, started at the last entry, scans the directories among the entries
  in reverse order: it returns the first whose name contains the version, or else
  appends them all to the queue in the order scanned. With that, the loop over the
  queue computes the search by levels, and more fuel does not change a result.
\<close>

lemma startsWith_iff: "startsWith s p \<longleftrightarrow> (\<exists>r. s = p @ r)"
  by (induction s p rule: startsWith.induct) auto

lemma js_includes_iff: "js_includes s sub \<longleftrightarrow> (\<exists>ps ss. s = ps @ sub @ ss)"
proof (induction s)
  case Nil
  show ?case by auto
next
  case (Cons c cs)
  show ?case
  proof
    assume "js_includes (c # cs) sub"
    then consider "startsWith (c # cs) sub" | "js_includes cs sub" by auto
    then show "\<exists>ps ss. c # cs = ps @ sub @ ss"
    proof cases
      case 1
      then obtain r where "c # cs = sub @ r" by (auto simp: startsWith_iff)
      then have "c # cs = [] @ sub @ r" by simp
      then show ?thesis by blast
    next
      case 2
      with Cons obtain ps ss where "cs = ps @ sub @ ss" by auto
      then have "c # cs = (c # ps) @ sub @ ss" by simp
      then show ?thesis by blast
    qed
  next
    assume "\<exists>ps ss. c # cs = ps @ sub @ ss"
    then obtain ps ss where e: "c # cs = ps @ sub @ ss" by blast
    show "js_includes (c # cs) sub"
    proof (cases ps)
      case Nil
      with e have "startsWith (c # cs) sub" by (auto simp: startsWith_iff)
      then show ?thesis by simp
    next
      case (Cons p ps')
      with e have "cs = ps' @ sub @ ss" by simp
      with Cons.IH show ?thesis by auto
    qed
  qed
qed

lemma snd_after: "map_option snd (after es r) = map_option snd r"
  by (cases r) (auto simp: after_def)

lemma after_eq_Some:
  "after es r = Some (tr, x) \<longleftrightarrow> (\<exists>tr'. r = Some (tr', x) \<and> tr = es @ tr')"
  by (cases r) (auto simp: after_def)

lemma findUnityDirectory_for_eq:
  "i \<le> length entries \<Longrightarrow>
   findUnityDirectory_for s ver d entries i queue =
     (let dirs = rev (filter isDirectory (take i entries)) in
      case find (\<lambda>e. js_includes (name e) ver) dirs of
        Some e \<Rightarrow> Inl (join s [d, name e])
      | None \<Rightarrow> Inr (queue @ map (\<lambda>e. join s [d, name e]) dirs))"
proof (induction i arbitrary: queue)
  case 0
  show ?case by simp
next
  case (Suc i)
  then have t: "take (Suc i) entries = take i entries @ [entries ! i]"
    by (simp add: take_Suc_conv_app_nth)
  from Suc show ?case
    by (simp add: t Let_def split: option.splits)
qed

lemma findUnityDirectory_while_levels:
  "map_option snd (findUnityDirectory_while fuel s ver (level @ next)) =
     bfs_levels fuel s ver level next"
proof (induction fuel s ver level "next" rule: bfs_levels.induct)
  case (1 fuel s ver)
  show ?case by simp
next
  case (2 fuel s ver d "next")
  then show ?case by simp
next
  case (3 s ver d level "next")
  show ?case by simp
next
  case (4 fuel s ver d level "next")
  show ?case
  proof (cases "readdirSync s d")
    case (Inl error)
    with 4 show ?thesis by (simp add: snd_after)
  next
    case (Inr entries)
    let ?dirs = "rev (filter isDirectory entries)"
    show ?thesis
    proof (cases "find (\<lambda>e. js_includes (name e) ver) ?dirs")
      case None
      with Inr "4.IH"(2) [OF Inr refl None] show ?thesis
        by (simp add: findUnityDirectory_for_eq snd_after)
    next
      case (Some e)
      with Inr show ?thesis
        by (simp add: findUnityDirectory_for_eq)
    qed
  qed
qed

lemma findUnityDirectory_while_more_fuel:
  "findUnityDirectory_while fuel s ver queue = Some r \<Longrightarrow>
   findUnityDirectory_while (fuel + k) s ver queue = Some r"
proof (induction fuel arbitrary: queue r)
  case 0
  then show ?case by (cases queue) simp_all
next
  case (Suc fuel)
  show ?case
  proof (cases queue)
    case Nil
    with Suc.prems show ?thesis by simp
  next
    case (Cons d q)
    show ?thesis
    proof (cases "readdirSync s d")
      case (Inl error)
      with Suc Cons show ?thesis
        by (cases r) (auto simp: after_eq_Some)
    next
      case (Inr entries)
      with Suc Cons show ?thesis
        by (cases r) (auto simp: after_eq_Some split: sum.splits)
    qed
  qed
qed

text \<open>
  C1: for every install root and version string, the result of the phase-1 search is
  that of the breadth-first search by levels: the directory entries of each listing
  are scanned in reverse order and appended to the queue in that order, the first
  directory whose name contains the version string is returned at once, and
  \<^verbatim>\<open>undefined\<close>, not an error, is returned when the queue is empty. The install
  root itself is where the search starts and is not a candidate. A result does not
  depend on the fuel that was enough for it. For the two siblings \<^verbatim>\<open>2021.3.1f1\<close> and
  \<^verbatim>\<open>2021.3.10f1\<close> under the root, in either order, and the version \<^verbatim>\<open>2021.3.1f1\<close>, the
  search lists the root and returns the sibling \<^verbatim>\<open>2021.3.1f1\<close>.
\<close>

theorem findUnityDirectory_breadth_first:
  "map_option snd (findUnityDirectory fuel s dir ver) = bfs_levels fuel s ver [dir] []
   \<and> findUnityDirectory_while fuel s ver [] = Some ([], Inr None)
   \<and> (findUnityDirectory fuel s dir ver = Some r \<longrightarrow>
        findUnityDirectory (fuel + k) s dir ver = Some r)
   \<and> (readdirSync s dir = Inr [Dirent ''2021.3.1f1'' True, Dirent ''2021.3.10f1'' True]
        \<or> readdirSync s dir = Inr [Dirent ''2021.3.10f1'' True, Dirent ''2021.3.1f1'' True]
      \<longrightarrow> findUnityDirectory (Suc fuel) s dir ''2021.3.1f1'' =
            Some ([Readdir dir], Inr (Some (join s [dir, ''2021.3.1f1'']))))"
  using findUnityDirectory_while_levels [of fuel s ver "[dir]" "[]"]
  by (auto simp: findUnityDirectory_def findUnityDirectory_while_more_fuel)

theorem findUnityDirectory_breadth_first_witness:
  "readdirSync example_sys ''/opt/unity/editors''
     = Inr [Dirent ''2021.3.1f1'' True, Dirent ''2021.3.10f1'' True]
   \<and> findUnityDirectory (Suc 0) example_sys ''/opt/unity/editors'' ''2021.3.1f1''
     = Some ([Readdir ''/opt/unity/editors''], Inr (Some ''/opt/unity/editors/2021.3.1f1''))
   \<and> findUnityDirectory (Suc 0 + 2) example_sys ''/opt/unity/editors'' ''2021.3.1f1''
     = Some ([Readdir ''/opt/unity/editors''], Inr (Some ''/opt/unity/editors/2021.3.1f1''))
   \<and> bfs_levels (Suc 0) example_sys ''2021.3.1f1'' [''/opt/unity/editors''] []
     = Some (Inr (Some ''/opt/unity/editors/2021.3.1f1''))"
proof -
  let ?r = "([Readdir ''/opt/unity/editors''], Inr (Some ''/opt/unity/editors/2021.3.1f1''))"
  have h: "readdirSync example_sys ''/opt/unity/editors''
             = Inr [Dirent ''2021.3.1f1'' True, Dirent ''2021.3.10f1'' True]"
    by (simp add: example_sys_simps example_readdir_def)
  have j: "join example_sys [''/opt/unity/editors'', ''2021.3.1f1'']
             = ''/opt/unity/editors/2021.3.1f1''"
    by (simp add: example_sys_simps example_join_def)
  have a: "findUnityDirectory (Suc 0) example_sys ''/opt/unity/editors'' ''2021.3.1f1'' = Some ?r"
    using findUnityDirectory_breadth_first [of 0 example_sys "''/opt/unity/editors''"] h
    by (simp only: j) simp
  have b: "findUnityDirectory (Suc 0 + 2) example_sys ''/opt/unity/editors'' ''2021.3.1f1''
             = Some ?r"
    using findUnityDirectory_breadth_first
      [of "Suc 0" example_sys "''/opt/unity/editors''" "''2021.3.1f1''" ?r 2] a
    by blast
  have c: "bfs_levels (Suc 0) example_sys ''2021.3.1f1'' [''/opt/unity/editors''] []
             = Some (Inr (Some ''/opt/unity/editors/2021.3.1f1''))"
    using findUnityDirectory_breadth_first
      [of "Suc 0" example_sys "''/opt/unity/editors''" "''2021.3.1f1''"] a
    by simp
  from h a b c show ?thesis by blast
qed

text \<open>
  A listing that fails with a permission error changes nothing when it is replaced by
  an empty listing; the search never returns a permission error; and a listing that
  fails with another error is the last one of the search.
\<close>

lemma findUnityDirectory_for_readdir:
  "findUnityDirectory_for (s\<lparr>readdirSync := f\<rparr>) ver d entries i queue =
     findUnityDirectory_for s ver d entries i queue"
  by (induction i arbitrary: queue) (simp_all add: Let_def)

lemma findUnityDirectory_while_as_empty:
  assumes "readdirSync s d = Inl error" and "permission_denied error"
  shows "findUnityDirectory_while fuel (s\<lparr>readdirSync := (readdirSync s)(d := Inr [])\<rparr>) ver queue =
         findUnityDirectory_while fuel s ver queue"
proof (induction fuel arbitrary: queue)
  case 0
  show ?case by (cases queue) simp_all
next
  case (Suc fuel)
  show ?case
  proof (cases queue)
    case Nil
    then show ?thesis by simp
  next
    case (Cons c q)
    show ?thesis
    proof (cases "c = d")
      case True
      with assms Cons Suc show ?thesis by simp
    next
      case False
      with Cons Suc show ?thesis
        by (simp add: findUnityDirectory_for_readdir split: sum.splits)
    qed
  qed
qed

lemma findUnityDirectory_while_no_permission_error:
  "findUnityDirectory_while fuel s ver queue = Some (tr, Inl error) \<Longrightarrow> \<not> permission_denied error"
proof (induction fuel arbitrary: queue tr)
  case 0
  then show ?case by (cases queue) simp_all
next
  case (Suc fuel)
  show ?case
  proof (cases queue)
    case Nil
    with Suc.prems show ?thesis by simp
  next
    case (Cons c q)
    with Suc show ?thesis
      by (auto simp: after_eq_Some split: sum.splits if_splits)
  qed
qed

lemma findUnityDirectory_while_stops_at_error:
  "findUnityDirectory_while fuel s ver queue = Some (tr, r) \<Longrightarrow>
   i < length tr \<Longrightarrow> tr ! i = Readdir p \<Longrightarrow> readdirSync s p = Inl error \<Longrightarrow>
   \<not> permission_denied error \<Longrightarrow> Suc i = length tr \<and> r = Inl error"
proof (induction fuel arbitrary: queue tr i)
  case 0
  then show ?case by (cases queue) simp_all
next
  case (Suc fuel)
  show ?case
  proof (cases queue)
    case Nil
    with Suc.prems show ?thesis by simp
  next
    case (Cons c q)
    show ?thesis
    proof (cases i)
      case 0
      with Suc.prems Cons show ?thesis
        by (auto simp: after_eq_Some split: sum.splits if_splits)
    next
      case (Suc j)
      with Suc.prems Cons Suc.IH [of _ _ j] show ?thesis
        by (auto simp: after_eq_Some split: sum.splits if_splits)
    qed
  qed
qed

text \<open>
  C3: when the listing of a directory taken from the queue fails with a permission
  error (\<^verbatim>\<open>EPERM\<close> or \<^verbatim>\<open>EACCES\<close>), the search goes on with the rest of the queue, and
  the whole search, effects and result, is the one it would be if the directory were
  empty; the search never ends with a permission error. When the listing fails with
  any other error, the search ends at once with that error: the rest of the queue is
  not listed, and in every search that lists such a directory that listing is the last
  effect and its error the result.
\<close>

theorem findUnityDirectory_listing_errors:
  "(readdirSync s d = Inl error \<and> permission_denied error \<longrightarrow>
      findUnityDirectory_while (Suc fuel) s ver (d # queue) =
        after [Readdir d] (findUnityDirectory_while fuel s ver queue)
      \<and> findUnityDirectory fuel s dir ver =
          findUnityDirectory fuel (s\<lparr>readdirSync := (readdirSync s)(d := Inr [])\<rparr>) dir ver)
   \<and> (readdirSync s d = Inl error \<and> \<not> permission_denied error \<longrightarrow>
      findUnityDirectory_while (Suc fuel) s ver (d # queue) = Some ([Readdir d], Inl error)
      \<and> (\<forall>tr r i. findUnityDirectory fuel s dir ver = Some (tr, r) \<and> i < length tr
            \<and> tr ! i = Readdir d \<longrightarrow> Suc i = length tr \<and> r = Inl error))
   \<and> (\<forall>tr. findUnityDirectory fuel s dir ver = Some (tr, Inl error) \<longrightarrow>
         \<not> permission_denied error)"
  using findUnityDirectory_while_stops_at_error [of fuel s ver "[dir]" _ _ _ d error]
  by (auto simp: findUnityDirectory_def findUnityDirectory_while_as_empty
      dest: findUnityDirectory_while_no_permission_error)

theorem findUnityDirectory_listing_errors_witness:
  "permission_denied (Error ''EACCES: permission denied, scandir'' (Some ''EACCES''))
   \<and> readdirSync example_sys ''/opt/unity/private''
       = Inl (Error ''EACCES: permission denied, scandir'' (Some ''EACCES''))
   \<and> findUnityDirectory_while (Suc 0) example_sys ''2022.1'' [''/opt/unity/private''] =
       Some ([Readdir ''/opt/unity/private''], Inr None)
   \<and> \<not> permission_denied (Error ''ENOENT: no such file or directory, scandir'' (Some ''ENOENT''))
   \<and> readdirSync example_sys ''/opt/unity/editors/2021.3.10f1''
       = Inl (Error ''ENOENT: no such file or directory, scandir'' (Some ''ENOENT''))
   \<and> findUnityDirectory_while (Suc 0) example_sys ''2022.1''
        [''/opt/unity/editors/2021.3.10f1'', ''/opt/unity/editors/2021.3.1f1''] =
       Some ([Readdir ''/opt/unity/editors/2021.3.10f1''],
             Inl (Error ''ENOENT: no such file or directory, scandir'' (Some ''ENOENT'')))"
proof -
  let ?eacces = "Error ''EACCES: permission denied, scandir'' (Some ''EACCES'')"
  let ?enoent = "Error ''ENOENT: no such file or directory, scandir'' (Some ''ENOENT'')"
  have p: "permission_denied ?eacces" by simp
  have q: "\<not> permission_denied ?enoent" by simp
  have r1: "readdirSync example_sys ''/opt/unity/private'' = Inl ?eacces"
    by (simp add: example_sys_simps example_readdir_def)
  have r2: "readdirSync example_sys ''/opt/unity/editors/2021.3.10f1'' = Inl ?enoent"
    by (simp add: example_sys_simps example_readdir_def)
  have a: "findUnityDirectory_while (Suc 0) example_sys ''2022.1'' [''/opt/unity/private''] =
       Some ([Readdir ''/opt/unity/private''], Inr None)"
    using findUnityDirectory_listing_errors
      [of example_sys "''/opt/unity/private''" ?eacces 0 "''2022.1''" "[]"] p r1
    by (simp add: after_def)
  have b: "findUnityDirectory_while (Suc 0) example_sys ''2022.1''
        [''/opt/unity/editors/2021.3.10f1'', ''/opt/unity/editors/2021.3.1f1''] =
       Some ([Readdir ''/opt/unity/editors/2021.3.10f1''], Inl ?enoent)"
    using findUnityDirectory_listing_errors
      [of example_sys "''/opt/unity/editors/2021.3.10f1''" ?enoent 0 "''2022.1''"
          "[''/opt/unity/editors/2021.3.1f1'']"] q r2
    by simp
  from p q r1 r2 a b show ?thesis by blast
qed

section \<open>ExecutableLocator: the search for the executable\<close>













section \<open>VersionReader: the fields of the version line\<close>

text \<open>
  What \<^verbatim>\<open>getUnityVersion\<close> throws is a \<^verbatim>\<open>ParseError\<close>; and the pieces of
  \<^verbatim>\<open>split\<close>: the first ends at the first separator, the second is what lies between
  the first separator and the next.
\<close>

lemma startsWith_append: "startsWith (p @ s) p"
  by (induction p) simp_all

lemma is_parse_error_parse_error: "is_parse_error (parse_error error)"
  using startsWith_append [of "''Failed to parse project version. Error: ''"]
  by (cases error) (simp_all del: startsWith.simps)

lemma js_split_eq:
  "js_split sep s =
     takeWhile (\<lambda>c. c \<noteq> sep) s
     # (case dropWhile (\<lambda>c. c \<noteq> sep) s of [] \<Rightarrow> [] | c # rest \<Rightarrow> js_split sep rest)"
  by (induction s) (auto split: list.splits)

lemma js_split_no_sep: "sep \<notin> set s \<Longrightarrow> js_split sep s = [s]"
  by (induction s) auto

lemma js_split_second:
  assumes "sep \<in> set s"
  shows "1 < length (js_split sep s)
       \<and> js_split sep s ! 1 =
           takeWhile (\<lambda>c. c \<noteq> sep) (tl (dropWhile (\<lambda>c. c \<noteq> sep) s))"
proof -
  from assms have "dropWhile (\<lambda>c. c \<noteq> sep) s \<noteq> []"
    by simp
  then obtain c rest where d: "dropWhile (\<lambda>c. c \<noteq> sep) s = c # rest"
    by (cases "dropWhile (\<lambda>c. c \<noteq> sep) s") auto
  have "js_split sep s = takeWhile (\<lambda>c. c \<noteq> sep) s # js_split sep rest"
    by (subst js_split_eq) (simp add: d)
  moreover have "js_split sep rest = takeWhile (\<lambda>c. c \<noteq> sep) rest
      # (case dropWhile (\<lambda>c. c \<noteq> sep) rest of [] \<Rightarrow> [] | c # rest' \<Rightarrow> js_split sep rest')"
    by (rule js_split_eq)
  ultimately show ?thesis
    by (simp add: d)
qed

text \<open>
  \<^verbatim>\<open>trim\<close> takes a no-break space and a carriage return from the ends of a field,
  as it takes a space.
\<close>

lemma js_trim_no_break_space:
  "js_trim ([CHR 0xA0] @ ''2021.3.1f1'' @ [CHR 0xA0, CHR 0x0D]) = ''2021.3.1f1''"
  by (simp add: js_trim_def js_whitespace_def)

text \<open>
  C8, as the specification states it, fails where the version line has two spaces
  after the marker: \<^verbatim>\<open>split(' ')\<close> splits at every single space, so the second
  piece is the empty string between the two spaces, where the second
  whitespace-separated field of the line is the version.
\<close>

theorem getUnityVersion_two_spaces_counterexample:
  "getUnityVersion (example_sys\<lparr>readFileSync := (\<lambda>p. Inr ''m_EditorVersion:  2021.3.1f1'')\<rparr>)
     ''/proj'' = Inr []
   \<and> js_trim (whitespace_fields ''m_EditorVersion:  2021.3.1f1'' ! 1) = ''2021.3.1f1''
   \<and> getUnityVersion (example_sys\<lparr>readFileSync := (\<lambda>p. Inr ''m_EditorVersion:  2021.3.1f1'')\<rparr>)
        ''/proj''
       \<noteq> Inr (js_trim (whitespace_fields ''m_EditorVersion:  2021.3.1f1'' ! 1))"
  by (simp add: getUnityVersion_def whitespace_fields_def js_trim_def js_whitespace_def Let_def)

text \<open>
  C8, amended: for every project root, the version reader returns, trimmed, the second
  field of the first line of the version descriptor file that contains the marker
  \<^verbatim>\<open>m_EditorVersion:\<close>, where the fields are the pieces of the line between single
  spaces: the text between the first space of the line and the next space or the end
  of the line. It fails with a \<^verbatim>\<open>ParseError\<close> if the file cannot be read, if no line
  contains the marker, or if the first such line has no space.
\<close>

theorem getUnityVersion_second_field:
  "(readFileSync s (join s [projectPath, ''ProjectSettings'', ''ProjectVersion.txt'']) = Inl error
      \<longrightarrow> getUnityVersion s projectPath = Inl (parse_error error)
        \<and> is_parse_error (parse_error error))
   \<and> (readFileSync s (join s [projectPath, ''ProjectSettings'', ''ProjectVersion.txt''])
        = Inr content \<longrightarrow>
        (find (\<lambda>line. js_includes line ''m_EditorVersion:'') (js_split (CHR 0x0A) content) = None
           \<longrightarrow> getUnityVersion s projectPath = Inl (parse_error trim_of_undefined)
             \<and> is_parse_error (parse_error trim_of_undefined))
        \<and> (\<forall>line. find (\<lambda>line. js_includes line ''m_EditorVersion:'')
                     (js_split (CHR 0x0A) content) = Some line \<longrightarrow>
              (CHR '' '' \<in> set line \<longrightarrow>
                 getUnityVersion s projectPath =
                   Inr (js_trim (takeWhile (\<lambda>c. c \<noteq> CHR '' '')
                                  (tl (dropWhile (\<lambda>c. c \<noteq> CHR '' '') line)))))
              \<and> (CHR '' '' \<notin> set line \<longrightarrow>
                 getUnityVersion s projectPath = Inl (parse_error trim_of_undefined)
                 \<and> is_parse_error (parse_error trim_of_undefined))))"
  using js_split_second [of "CHR '' ''"]
  by (auto simp: getUnityVersion_def Let_def js_split_no_sep is_parse_error_parse_error
      simp del: parse_error.simps is_parse_error.simps)

theorem getUnityVersion_second_field_witness:
  "getUnityVersion example_sys ''/proj'' = Inr ''2021.3.1f1''
   \<and> getUnityVersion example_sys ''/nowhere'' =
       Inl (Error (''Failed to parse project version. Error: ''
                   @ ''ENOENT: no such file or directory, open'') None)"
proof -
  let ?content = "''m_EditorVersion: 2021.3.1f1'' @ [CHR 0x0A]
                @ ''m_EditorVersionWithRevision: 2021.3.1f1 (eba7e8f7e3b4)'' @ [CHR 0x0A]"
  have r: "readFileSync example_sys
             (join example_sys [''/proj'', ''ProjectSettings'', ''ProjectVersion.txt''])
           = Inr ?content"
    by (simp add: example_sys_simps example_join_def)
  have f: "find (\<lambda>line. js_includes line ''m_EditorVersion:'') (js_split (CHR 0x0A) ?content)
           = Some ''m_EditorVersion: 2021.3.1f1''"
    by simp
  have sp: "CHR '' '' \<in> set ''m_EditorVersion: 2021.3.1f1''" by simp
  from getUnityVersion_second_field [of example_sys "''/proj''" _ ?content,
      THEN conjunct2, THEN mp, OF r, THEN conjunct2, THEN spec, THEN mp, OF f,
      THEN conjunct1, THEN mp, OF sp]
  have a: "getUnityVersion example_sys ''/proj'' = Inr ''2021.3.1f1''"
    by (simp add: js_trim_def js_whitespace_def)
  have e: "readFileSync example_sys
             (join example_sys [''/nowhere'', ''ProjectSettings'', ''ProjectVersion.txt''])
           = Inl (Error ''ENOENT: no such file or directory, open'' (Some ''ENOENT''))"
    by (simp add: example_sys_simps example_join_def)
  from getUnityVersion_second_field [of example_sys "''/nowhere''"
      "Error ''ENOENT: no such file or directory, open'' (Some ''ENOENT'')",
      THEN conjunct1, THEN mp, OF e]
  have b: "getUnityVersion example_sys ''/nowhere'' =
       Inl (Error (''Failed to parse project version. Error: ''
                   @ ''ENOENT: no such file or directory, open'') None)"
    by simp
  from a b show ?thesis by blast
qed

section \<open>Orchestrator: the exit code\<close>





















text \<open>Runs on variants of the example installation, evaluated.\<close>

lemma show_int_examples:
  "show_int 3 = ''3''" "show_int 127 = ''127''" "show_int (- 2) = ''-2''"
  by (simp_all add: show_int_def show_nat.simps)

lemmas example_eval =
  main_def getUnityInstallDir_def getUnityVersion_def getUnityExecutable_def
  findUnityDirectory_def numeral_3_eq_3 after_def getBuildArguments_eq fixed_arguments_def
  executeUnityBuild_def example_sys_simps example_readdir_def example_join_def
  example_dirname_def example_events_def on_stdout_data_def on_stderr_data_def on_close_def
  on_error_def js_trim_def js_whitespace_def Let_def show_int_examples




lemma freebsd_main:
  "main 3 (example_sys\<lparr>platform := ''freebsd''\<rparr>) =
     Some ([ConsoleLog ''Unity project path used: /proj'',
            ConsoleLog ''Unity version used: 2021.3.1f1'',
            Readdir ''/opt/unity'',
            Readdir ''/opt/unity/editors'',
            ConsoleLog ''Unity Executable: '',
            ConsoleLog (''Arguments: -quit -batchmode -logFile - -projectPath /proj ''
              @ ''-executeMethod Builder.Build -test -targetPlatform StandaloneWindows64 -quit''),
            ConsoleLog ''Creating log file. Path: /proj/Build/Releases/build_output.log'',
            Exists ''/proj/Build/Releases'',
            CreateWriteStream ''/proj/Build/Releases/build_output.log'',
            ConsoleLog ''Executing Unity build.'',
            Spawn [CHR 0x22, CHR 0x22]
              [''-quit'', ''-batchmode'', ''-logFile -'', ''-projectPath /proj'',
               ''-executeMethod Builder.Build'', ''-test'',
               ''-targetPlatform StandaloneWindows64'', ''-quit'']
              ''/proj'',
            ConsoleError ''Process exited with code: 127'', LogEnd, Resolve 127,
            Exit 127], 127)"
  by (simp add: example_eval)




text \<open>
  C9, as the specification states it, fails when an install root is supplied:
  \<^verbatim>\<open>getUnityInstallDir\<close> returns a supplied root before it looks at the platform. On
  a platform that is not supported the run raises no error, lists the directories of
  the phase-1 search and spawns the child with an empty path.
\<close>

theorem unsupported_platform_with_root_counterexample:
  "platform (example_sys\<lparr>platform := ''freebsd''\<rparr>) \<notin> {''win32'', ''darwin'', ''linux''}
   \<and> getUnityInstallDir (example_sys\<lparr>platform := ''freebsd''\<rparr>)
        (getenv (example_sys\<lparr>platform := ''freebsd''\<rparr>) ''unity_install_dir'')
       = Inr ''/opt/unity''
   \<and> map_option (\<lambda>(tr, c). (filter is_search tr, c))
        (main 3 (example_sys\<lparr>platform := ''freebsd''\<rparr>))
       = Some ([Readdir ''/opt/unity'', Readdir ''/opt/unity/editors'',
                Exists ''/proj/Build/Releases''], 127)"
  by (simp add: freebsd_main) (simp add: getUnityInstallDir_def example_sys_simps)

text \<open>
  C9, amended: for every run on an unsupported platform (not \<^verbatim>\<open>win32\<close>, \<^verbatim>\<open>darwin\<close> or
  \<^verbatim>\<open>linux\<close>) where no install root is supplied (unset or empty), the error
  \<^verbatim>\<open>Unsupported platform.\<close> is raised before any search of the file system begins,
  and the run prints it and exits with \<open>1\<close>. Where an install root is supplied, it is
  taken as it is and no error is raised: the locator runs the phase-1 search and then
  returns \<^verbatim>\<open>undefined\<close> without searching for an executable.
\<close>

theorem unsupported_platform_without_root:
  "platform s \<notin> {''win32'', ''darwin'', ''linux''} \<longrightarrow>
     (\<not> truthy (getenv s ''unity_install_dir'') \<longrightarrow>
        getUnityInstallDir s (getenv s ''unity_install_dir'')
          = Inl (Error ''Unsupported platform.'' None)
        \<and> main fuel s = Some ([ConsoleError ''Error: Unsupported platform.'', Exit 1], 1))
     \<and> (truthy (getenv s ''unity_install_dir'') \<longrightarrow>
        getUnityInstallDir s (getenv s ''unity_install_dir'')
          = Inr (the (getenv s ''unity_install_dir''))
        \<and> getUnityExecutable fuel s installDir version =
            (case findUnityDirectory fuel s installDir version of
               None \<Rightarrow> None
             | Some (tr, Inl error) \<Rightarrow> Some (tr, Inl error)
             | Some (tr, Inr unityDir) \<Rightarrow>
                 if truthy unityDir then Some (tr, Inr None)
                 else Some (tr @ [ConsoleError
                   ''Unable to find the corresponding Unity version installation folder.''],
                   Inr None)))"
  by (auto simp: getUnityInstallDir_def main_def getUnityExecutable_def Let_def
      split: option.splits sum.splits)

theorem unsupported_platform_without_root_witness:
  "platform (example_sys\<lparr>platform := ''beos'', getenv := Map.empty\<rparr>)
     \<notin> {''win32'', ''darwin'', ''linux''}
   \<and> \<not> truthy (getenv (example_sys\<lparr>platform := ''beos'', getenv := Map.empty\<rparr>)
          ''unity_install_dir'')
   \<and> main 3 (example_sys\<lparr>platform := ''beos'', getenv := Map.empty\<rparr>)
     = Some ([ConsoleError ''Error: Unsupported platform.'', Exit 1], 1)
   \<and> truthy (getenv (example_sys\<lparr>platform := ''freebsd''\<rparr>) ''unity_install_dir'')
   \<and> getUnityInstallDir (example_sys\<lparr>platform := ''freebsd''\<rparr>)
        (getenv (example_sys\<lparr>platform := ''freebsd''\<rparr>) ''unity_install_dir'')
     = Inr ''/opt/unity''"
  using unsupported_platform_without_root
      [of "example_sys\<lparr>platform := ''beos'', getenv := Map.empty\<rparr>" 3]
    unsupported_platform_without_root [of "example_sys\<lparr>platform := ''freebsd''\<rparr>"]
  by (simp add: example_sys_simps)

end
